theory Spec2Isabelle
  imports Complex_Main "HOL-Library.Char_ord" "HOL-Library.List_Lexorder"
begin

section \<open>Values shared by the services\<close>

text \<open>
  Parameters and settings are Python dictionaries \<^verbatim>\<open>Dict[str, Any]\<close> holding JSON-like
  trees. A dictionary is kept as an association list; the only comparison the code makes on
  one is \<^verbatim>\<open>parameters == {}\<close>, which holds exactly for the empty list.
\<close>

datatype json =
    JNull
  | JBool bool
  | JNum rat
  | JStr string
  | JArr "json list"
  | JObj "(string \<times> json) list"

type_synonym dict = "(string \<times> json) list"

text \<open>The apostrophe, for the messages that quote a name.\<close>

definition sq :: string where
  "sq = [CHR 0x27]"

text \<open>
  Exceptions are values. \<open>HTTPException\<close> carries the status code and the detail; the
  others carry the message \<^verbatim>\<open>str(e)\<close> gives.
\<close>

datatype error =
    HTTPException nat string
  | ValueError string
  | RuntimeError string
  | Exception string
  | AttributeError string
  | UnboundLocalError string

fun str_exc :: "error \<Rightarrow> string" where
  "str_exc (HTTPException c d) = d"
| "str_exc (ValueError m) = m"
| "str_exc (RuntimeError m) = m"
| "str_exc (Exception m) = m"
| "str_exc (AttributeError m) = m"
| "str_exc (UnboundLocalError m) = m"

section \<open>evaluators_service.py: the evaluate dispatcher\<close>

text \<open>
  \<^verbatim>\<open>Error\<close> and \<^verbatim>\<open>Result\<close> come from \<^verbatim>\<open>models.db_models\<close>; the fields are those the
  scoring functions pass to the constructors.
\<close>

record Error =
  message :: string
  stacktrace :: "string option"

record Result =
  res_type :: string
  res_value :: json
  res_error :: "Error option"

text \<open>The six positional arguments every scoring function takes.\<close>

record eval_args =
  ea_inputs :: dict
  ea_output :: string
  ea_correct_answer :: string
  ea_app_params :: dict
  ea_settings_values :: dict
  ea_lm_providers_keys :: dict

text \<open>The seven scoring functions defined at module level.\<close>

datatype scorer =
    AutoExactMatch
  | AutoSimilarityMatch
  | AutoRegexTest
  | FieldMatchTest
  | AutoWebhookTest
  | AutoCustomCodeRun
  | AutoAiCritique

text \<open>
  What a name of the module's global namespace can be bound to: one of the scoring functions,
  the function \<^verbatim>\<open>evaluate\<close> itself, an imported module, a class, a special form of
  \<^verbatim>\<open>typing\<close>, some other instance (the logger, the loader, the module spec, the builtins
  dictionary), a string, or \<^verbatim>\<open>None\<close>.
\<close>

datatype gobject =
    ScoringFunction scorer
  | EvaluateFunction
  | ModuleObject string
  | ClassObject string
  | TypingForm string
  | InstanceObject string
  | StrObject string
  | NoneObject


text \<open>
  \<^verbatim>\<open>auto_exact_match\<close>: the comparison cannot raise, so the \<^verbatim>\<open>except\<close> branch is dead.
\<close>

definition auto_exact_match :: "eval_args \<Rightarrow> Result" where
  "auto_exact_match a =
     \<lparr>res_type = ''bool'', res_value = JBool (ea_output a = ea_correct_answer a), res_error = None\<rparr>"

text \<open>
  The other six scoring functions call out to libraries (\<^verbatim>\<open>re\<close>, \<^verbatim>\<open>json\<close>, \<^verbatim>\<open>httpx\<close>,
  the sandbox, the language model). Each wraps its whole body in
  \<^verbatim>\<open>try ... except Exception\<close> and returns a \<^verbatim>\<open>Result\<close> in both branches, so each is a
  function from the six arguments to a \<^verbatim>\<open>Result\<close>; what it computes is the parameter
  \<open>ext\<close>.
\<close>

definition run_scorer :: "(scorer \<Rightarrow> eval_args \<Rightarrow> Result) \<Rightarrow> scorer \<Rightarrow> eval_args \<Rightarrow> Result" where
  "run_scorer ext f a = (case f of AutoExactMatch \<Rightarrow> auto_exact_match a | _ \<Rightarrow> ext f a)"

text \<open>
  \<^verbatim>\<open>globals()\<close> of the module, in the order the top-level statements bind the names,
  after the attributes every module imported from a source file carries. The module has no
  docstring, so \<^verbatim>\<open>__doc__\<close> is \<^verbatim>\<open>None\<close>.
\<close>

definition module_globals :: "(string \<times> gobject) list" where
  "module_globals =
    [(''__name__'', StrObject ''agenta_backend.services.evaluators_service''),
     (''__doc__'', NoneObject),
     (''__package__'', StrObject ''agenta_backend.services''),
     (''__loader__'', InstanceObject ''SourceFileLoader''),
     (''__spec__'', InstanceObject ''ModuleSpec''),
     (''__file__'', StrObject ''evaluators_service.py''),
     (''__cached__'', StrObject ''evaluators_service.pyc''),
     (''__builtins__'', InstanceObject ''dict''),
     (''re'', ModuleObject ''re''),
     (''json'', ModuleObject ''json''),
     (''httpx'', ModuleObject ''httpx''),
     (''Any'', TypingForm ''Any''),
     (''Dict'', TypingForm ''Dict''),
     (''Tuple'', TypingForm ''Tuple''),
     (''sandbox'', ModuleObject ''sandbox''),
     (''Error'', ClassObject ''Error''),
     (''Result'', ClassObject ''Result''),
     (''OpenAI'', ClassObject ''OpenAI''),
     (''LLMChain'', ClassObject ''LLMChain''),
     (''PromptTemplate'', ClassObject ''PromptTemplate''),
     (''logging'', ModuleObject ''logging''),
     (''logger'', InstanceObject ''Logger''),
     (''auto_exact_match'', ScoringFunction AutoExactMatch),
     (''auto_similarity_match'', ScoringFunction AutoSimilarityMatch),
     (''auto_regex_test'', ScoringFunction AutoRegexTest),
     (''field_match_test'', ScoringFunction FieldMatchTest),
     (''auto_webhook_test'', ScoringFunction AutoWebhookTest),
     (''auto_custom_code_run'', ScoringFunction AutoCustomCodeRun),
     (''auto_ai_critique'', ScoringFunction AutoAiCritique),
     (''evaluate'', EvaluateFunction)]"

text \<open>Python truthiness of a global: only \<^verbatim>\<open>None\<close> and the empty string are false.\<close>

fun truthy :: "gobject \<Rightarrow> bool" where
  "truthy NoneObject = False"
| "truthy (StrObject s) = (s \<noteq> [])"
| "truthy _ = True"

text \<open>
  Calling a global with the six positional arguments. A scoring function returns its
  \<^verbatim>\<open>Result\<close>. \<^verbatim>\<open>evaluate\<close> has seven required parameters, so the call raises
  \<^verbatim>\<open>TypeError\<close>; modules, instances and strings are not callable; the classes are keyword-only
  models and the typing forms cannot be instantiated. \<open>Inl\<close> carries \<^verbatim>\<open>str(exc)\<close> (for
  objects other than \<^verbatim>\<open>evaluate\<close> the wording is the interpreter's and the libraries').
\<close>

fun call_global :: "(scorer \<Rightarrow> eval_args \<Rightarrow> Result) \<Rightarrow> gobject \<Rightarrow> eval_args \<Rightarrow> string + Result" where
  "call_global ext (ScoringFunction f) a = Inr (run_scorer ext f a)"
| "call_global ext EvaluateFunction a =
     Inl (''evaluate() missing 1 required positional argument: '' @ sq @ ''lm_providers_keys'' @ sq)"
| "call_global ext (ModuleObject n) a = Inl (sq @ ''module'' @ sq @ '' object is not callable'')"
| "call_global ext (ClassObject n) a = Inl ''__init__() takes exactly 1 positional argument (7 given)''"
| "call_global ext (TypingForm n) a = Inl (''Type '' @ n @ '' cannot be instantiated'')"
| "call_global ext (InstanceObject n) a = Inl (sq @ n @ sq @ '' object is not callable'')"
| "call_global ext (StrObject s) a = Inl (sq @ ''str'' @ sq @ '' object is not callable'')"
| "call_global ext NoneObject a = Inl (sq @ ''NoneType'' @ sq @ '' object is not callable'')"

text \<open>
  \<^verbatim>\<open>evaluate\<close>: \<^verbatim>\<open>globals().get(evaluator_key, None)\<close>, the truthiness test, then the call
  inside \<^verbatim>\<open>try ... except Exception\<close>.
\<close>

definition evaluate :: "(scorer \<Rightarrow> eval_args \<Rightarrow> Result) \<Rightarrow> string \<Rightarrow> eval_args \<Rightarrow> error + Result" where
  "evaluate ext evaluator_key a =
     (let evaluation_function =
            (case map_of module_globals evaluator_key of None \<Rightarrow> NoneObject | Some g \<Rightarrow> g)
      in if \<not> truthy evaluation_function
         then Inl (ValueError (''Evaluation method '' @ sq @ evaluator_key @ sq @ '' not found.''))
         else (case call_global ext evaluation_function a of
                 Inr r \<Rightarrow> Inr r
               | Inl exc \<Rightarrow>
                   Inl (RuntimeError (''Error occurred while running '' @ evaluator_key
                          @ '' evaluation. Exception: '' @ exc))))"

text \<open>The table the design note asks for: the seven named scoring functions.\<close>

definition scoring_functions :: "(string \<times> scorer) list" where
  "scoring_functions =
    [(''auto_exact_match'', AutoExactMatch),
     (''auto_similarity_match'', AutoSimilarityMatch),
     (''auto_regex_test'', AutoRegexTest),
     (''field_match_test'', FieldMatchTest),
     (''auto_webhook_test'', AutoWebhookTest),
     (''auto_custom_code_run'', AutoCustomCodeRun),
     (''auto_ai_critique'', AutoAiCritique)]"

section \<open>The document store\<close>

text \<open>
  Modelled from the spec: the document classes of \<^verbatim>\<open>models.db_models\<close> are not among the
  sources. Each is a record with the fields the constructor calls and attribute accesses of
  \<^verbatim>\<open>db_manager.py\<close> and \<^verbatim>\<open>configs_router.py\<close> name; a \<^verbatim>\<open>ConfigDB\<close> has no collection of
  its own and is embedded, by value, in the variant or variant revision that holds it; a link
  to another document is the identifier of that document; the timestamps are left out.
  Identifiers are natural numbers handed out by the store's counter, and \<^verbatim>\<open>str(id)\<close> is the
  decimal numeral.
\<close>

type_synonym oid = nat

fun str_oid :: "oid \<Rightarrow> string" where
  "str_oid n =
     (if n < 10 then [char_of (48 + n)] else str_oid (n div 10) @ [char_of (48 + n mod 10)])"

text \<open>The equation recurses under a condition, so it is unfolded on request only.\<close>

declare str_oid.simps [simp del]

record UserDB =
  u_id :: oid
  u_uid :: string
  u_organizations :: "oid list"

record OrganizationDB =
  o_id :: oid
  o_type :: string
  o_owner :: string

record AppDB =
  a_id :: oid
  a_app_name :: string
  a_organization :: oid
  a_user :: oid

record DeploymentDB =
  d_id :: oid
  d_app :: oid

record VariantBaseDB =
  vb_id :: oid
  vb_app :: oid
  vb_organization :: oid
  vb_user :: oid
  vb_base_name :: string
  vb_image :: oid

record ConfigDB =
  config_name :: string
  parameters :: dict

record AppVariantDB =
  av_id :: oid
  av_app :: oid
  av_variant_name :: string
  av_revision :: int
  av_image :: oid
  av_user :: oid
  av_modified_by :: oid
  av_organization :: oid
  av_parameters :: dict
  av_previous_variant_name :: "string option"
  av_base_name :: string
  av_base :: oid
  av_config_name :: string
  av_config :: ConfigDB
  av_is_deleted :: bool

record AppVariantRevisionsDB =
  avr_id :: oid
  avr_variant :: oid
  avr_revision :: int
  avr_modified_by :: oid
  avr_base :: oid
  avr_config :: ConfigDB

record AppEnvironmentDB =
  env_id :: oid
  env_app :: oid
  env_name :: string
  env_user :: oid
  env_revision :: int
  env_organization :: oid
  env_deployed_app_variant :: "oid option"
  env_deployed_app_variant_revision :: "oid option"
  env_deployment :: "oid option"

record AppEnvironmentRevisionDB =
  er_id :: oid
  er_environment :: oid
  er_revision :: int
  er_modified_by :: oid
  er_deployed_app_variant_revision :: "oid option"
  er_deployment :: "oid option"

text \<open>
  The database: one list per collection, in insertion order, and the identifier counter.
\<close>

record store =
  users :: "UserDB list"
  organizations :: "OrganizationDB list"
  apps :: "AppDB list"
  deployments :: "DeploymentDB list"
  bases :: "VariantBaseDB list"
  variants :: "AppVariantDB list"
  variant_revisions :: "AppVariantRevisionsDB list"
  environments :: "AppEnvironmentDB list"
  environment_revisions :: "AppEnvironmentRevisionDB list"
  next_id :: oid

text \<open>
  An operation that can raise and can write returns its outcome together with the store it
  leaves behind, so that what a failed call has written is part of the model.
\<close>

type_synonym 'a result = "(error + 'a) \<times> store"

text \<open>
  The collaborators the sources import but do not define: the deployment flavour
  \<^verbatim>\<open>os.environ["FEATURE_FLAG"]\<close> and \<^verbatim>\<open>utils.common.check_user_org_access\<close>. The dictionary
  \<^verbatim>\<open>get_user_and_org_id\<close> returns is \<open>user_org_data\<close>; the code reads its key \<^verbatim>\<open>uid\<close>.
\<close>

record user_org_data =
  uid :: string
  organization_ids :: "string list"

record collaborators =
  FEATURE_FLAG :: string
  check_user_org_access :: "user_org_data \<Rightarrow> string \<Rightarrow> bool \<Rightarrow> bool"

section \<open>db_manager.py\<close>

subsection \<open>Writes of the document layer\<close>

text \<open>
  \<^verbatim>\<open>create()\<close> (and \<^verbatim>\<open>save()\<close> of a document that has no identifier yet) inserts the
  document under a fresh identifier; \<^verbatim>\<open>save()\<close> of a stored document replaces the document
  that has its identifier.
\<close>

definition create_user :: "UserDB \<Rightarrow> store \<Rightarrow> UserDB \<times> store" where
  "create_user u st =
     (let u' = u\<lparr>u_id := next_id st\<rparr>
      in (u', st\<lparr>users := users st @ [u'], next_id := next_id st + 1\<rparr>))"

definition save_user :: "UserDB \<Rightarrow> store \<Rightarrow> store" where
  "save_user u st = st\<lparr>users := map (\<lambda>x. if u_id x = u_id u then u else x) (users st)\<rparr>"

definition create_organization :: "OrganizationDB \<Rightarrow> store \<Rightarrow> OrganizationDB \<times> store" where
  "create_organization og st =
     (let og' = og\<lparr>o_id := next_id st\<rparr>
      in (og', st\<lparr>organizations := organizations st @ [og'], next_id := next_id st + 1\<rparr>))"

definition create_variant :: "AppVariantDB \<Rightarrow> store \<Rightarrow> AppVariantDB \<times> store" where
  "create_variant v st =
     (let v' = v\<lparr>av_id := next_id st\<rparr>
      in (v', st\<lparr>variants := variants st @ [v'], next_id := next_id st + 1\<rparr>))"

definition save_variant :: "AppVariantDB \<Rightarrow> store \<Rightarrow> store" where
  "save_variant v st =
     st\<lparr>variants := map (\<lambda>x. if av_id x = av_id v then v else x) (variants st)\<rparr>"

definition create_variant_revision ::
  "AppVariantRevisionsDB \<Rightarrow> store \<Rightarrow> AppVariantRevisionsDB \<times> store" where
  "create_variant_revision r st =
     (let r' = r\<lparr>avr_id := next_id st\<rparr>
      in (r', st\<lparr>variant_revisions := variant_revisions st @ [r'], next_id := next_id st + 1\<rparr>))"

definition save_environment :: "AppEnvironmentDB \<Rightarrow> store \<Rightarrow> store" where
  "save_environment e st =
     st\<lparr>environments := map (\<lambda>x. if env_id x = env_id e then e else x) (environments st)\<rparr>"

definition create_environment_revision_doc ::
  "AppEnvironmentRevisionDB \<Rightarrow> store \<Rightarrow> AppEnvironmentRevisionDB \<times> store" where
  "create_environment_revision_doc r st =
     (let r' = r\<lparr>er_id := next_id st\<rparr>
      in (r', st\<lparr>environment_revisions := environment_revisions st @ [r'],
                  next_id := next_id st + 1\<rparr>))"

subsection \<open>Reads\<close>

definition fetch_app_by_id :: "store \<Rightarrow> oid \<Rightarrow> AppDB option" where
  "fetch_app_by_id st app_id = find (\<lambda>a. a_id a = app_id) (apps st)"

definition fetch_app_variant_by_id :: "store \<Rightarrow> oid \<Rightarrow> AppVariantDB option" where
  "fetch_app_variant_by_id st app_variant_id =
     find (\<lambda>v. av_id v = app_variant_id) (variants st)"

text \<open>\<^verbatim>\<open>str\<close> of a Python integer, for the message below.\<close>

definition str_int :: "int \<Rightarrow> string" where
  "str_int i = (if i < 0 then ''-'' @ str_oid (nat (- i)) else str_oid (nat i))"

definition fetch_app_variant_revision_by_variant ::
  "store \<Rightarrow> oid \<Rightarrow> int \<Rightarrow> error + AppVariantRevisionsDB" where
  "fetch_app_variant_revision_by_variant st app_variant_id revision =
     (case find (\<lambda>r. avr_variant r = app_variant_id \<and> avr_revision r = revision)
             (variant_revisions st) of
        None \<Rightarrow>
          Inl (Exception (''app variant revision  for app_variant '' @ str_oid app_variant_id
                 @ '' and revision '' @ str_int revision @ '' not found''))
      | Some r \<Rightarrow> Inr r)"

definition fetch_app_variant_revision_by_id :: "store \<Rightarrow> oid \<Rightarrow> AppVariantRevisionsDB option" where
  "fetch_app_variant_revision_by_id st variant_revision_id =
     find (\<lambda>r. avr_id r = variant_revision_id) (variant_revisions st)"

definition fetch_app_environment_revision :: "store \<Rightarrow> oid \<Rightarrow> AppEnvironmentRevisionDB option" where
  "fetch_app_environment_revision st revision_id =
     find (\<lambda>r. er_id r = revision_id) (environment_revisions st)"

definition get_deployment_by_appid :: "store \<Rightarrow> oid \<Rightarrow> DeploymentDB option" where
  "get_deployment_by_appid st app_id = find (\<lambda>d. d_app d = app_id) (deployments st)"

text \<open>\<^verbatim>\<open>list_variants_for_base\<close>: the variants of the base, sorted by \<^verbatim>\<open>variant_name\<close>.\<close>

definition list_variants_for_base :: "store \<Rightarrow> VariantBaseDB \<Rightarrow> AppVariantDB list" where
  "list_variants_for_base st base =
     sort_key av_variant_name (filter (\<lambda>v. av_base v = vb_id base) (variants st))"

definition find_previous_variant_from_base_id :: "store \<Rightarrow> oid \<Rightarrow> AppVariantDB option" where
  "find_previous_variant_from_base_id st base_id =
     (case filter (\<lambda>v. av_base v = base_id) (variants st) of
        [] \<Rightarrow> None
      | previous_variant # _ \<Rightarrow> Some previous_variant)"

definition list_environments :: "store \<Rightarrow> oid \<Rightarrow> error + AppEnvironmentDB list" where
  "list_environments st app_id =
     (case fetch_app_by_id st app_id of
        None \<Rightarrow> Inl (ValueError ''App not found'')
      | Some app_instance \<Rightarrow> Inr (filter (\<lambda>e. env_app e = app_id) (environments st)))"

definition fetch_base_and_check_access ::
  "collaborators \<Rightarrow> store \<Rightarrow> oid \<Rightarrow> user_org_data \<Rightarrow> bool \<Rightarrow> error + VariantBaseDB" where
  "fetch_base_and_check_access C st base_id uod check_owner =
     (case find (\<lambda>b. vb_id b = base_id) (bases st) of
        None \<Rightarrow> Inl (HTTPException 404 ''Base not found'')
      | Some base \<Rightarrow>
          if \<not> check_user_org_access C uod (str_oid (vb_organization base)) check_owner
          then Inl (HTTPException 403 (''You do not have access to this base: '' @ str_oid base_id))
          else Inr base)"

subsection \<open>get_user\<close>

text \<open>
  A user that is not in the database is created, with a default organization, unless the
  deployment is a cloud or enterprise one; there the lookup raises.
\<close>

definition get_user :: "collaborators \<Rightarrow> string \<Rightarrow> store \<Rightarrow> UserDB result" where
  "get_user C user_uid st =
     (case find (\<lambda>u. u_uid u = user_uid) (users st) of
        Some user \<Rightarrow> (Inr user, st)
      | None \<Rightarrow>
          if FEATURE_FLAG C \<notin> set [''cloud'', ''ee'']
          then (let (user, st1) = create_user \<lparr>u_id = 0, u_uid = ''0'', u_organizations = []\<rparr> st;
                    (org, st2) = create_organization
                       \<lparr>o_id = 0, o_type = ''default'', o_owner = str_oid (u_id user)\<rparr> st1;
                    user_db = user\<lparr>u_organizations := u_organizations user @ [o_id org]\<rparr>
                in (Inr user_db, save_user user_db st2))
          else (Inl (Exception ''Please login or signup''), st))"

subsection \<open>update_variant_parameters\<close>

text \<open>
  The body is one \<^verbatim>\<open>try\<close> block whose handler turns every exception into the
  \<^verbatim>\<open>ValueError\<close>; the only call in it that can raise is \<^verbatim>\<open>get_user\<close>, before any write. The
  configuration object is shared by the variant and the new revision in memory; each
  \<^verbatim>\<open>save()\<close> stores its own copy of it.
\<close>

definition update_variant_parameters ::
  "collaborators \<Rightarrow> AppVariantDB \<Rightarrow> dict \<Rightarrow> user_org_data \<Rightarrow> store \<Rightarrow> unit result" where
  "update_variant_parameters C app_variant_db new_parameters uod st =
     (case get_user C (uid uod) st of
        (Inl e, st1) \<Rightarrow> (Inl (ValueError ''Issue updating variant parameters''), st1)
      | (Inr user, st1) \<Rightarrow>
          (let config_db = (av_config app_variant_db)\<lparr>parameters := new_parameters\<rparr>;
               variant = app_variant_db\<lparr>av_config := config_db,
                           av_revision := av_revision app_variant_db + 1,
                           av_modified_by := u_id user\<rparr>;
               st2 = save_variant variant st1;
               (variant_revision, st3) = create_variant_revision
                  \<lparr>avr_id = 0, avr_variant = av_id variant, avr_revision = av_revision variant,
                   avr_modified_by = u_id user, avr_base = av_base variant,
                   avr_config = config_db\<rparr> st2
           in (Inr (), st3)))"

subsection \<open>add_variant_from_base_and_config\<close>

definition add_variant_from_base_and_config ::
  "collaborators \<Rightarrow> VariantBaseDB \<Rightarrow> string \<Rightarrow> dict \<Rightarrow> user_org_data \<Rightarrow> store
     \<Rightarrow> AppVariantDB result" where
  "add_variant_from_base_and_config C base_db new_config_name new_parameters uod st =
     (let new_variant_name = vb_base_name base_db @ ''.'' @ new_config_name
      in case find_previous_variant_from_base_id st (vb_id base_db) of
           None \<Rightarrow> (Inl (HTTPException 500 ''Previous app variant not found''), st)
         | Some previous_app_variant_db \<Rightarrow>
             if list_ex (\<lambda>av. av_config_name av = new_config_name) (list_variants_for_base st base_db)
             then (Inl (ValueError ''App variant with the same name already exists''), st)
             else (case get_user C (uid uod) st of
                     (Inl e, st1) \<Rightarrow> (Inl e, st1)
                   | (Inr user_db, st1) \<Rightarrow>
                       (let config_db = \<lparr>config_name = new_config_name, parameters = new_parameters\<rparr>;
                            (db_app_variant, st2) = create_variant
                               \<lparr>av_id = 0,
                                av_app = av_app previous_app_variant_db,
                                av_variant_name = new_variant_name,
                                av_revision = 1,
                                av_image = vb_image base_db,
                                av_user = u_id user_db,
                                av_modified_by = u_id user_db,
                                av_organization = av_organization previous_app_variant_db,
                                av_parameters = new_parameters,
                                av_previous_variant_name =
                                  Some (av_variant_name previous_app_variant_db),
                                av_base_name = vb_base_name base_db,
                                av_base = vb_id base_db,
                                av_config_name = new_config_name,
                                av_config = config_db,
                                av_is_deleted = False\<rparr> st1;
                            (variant_revision, st3) = create_variant_revision
                               \<lparr>avr_id = 0, avr_variant = av_id db_app_variant, avr_revision = 1,
                                avr_modified_by = u_id user_db, avr_base = vb_id base_db,
                                avr_config = config_db\<rparr> st2
                        in (Inr db_app_variant, st3))))"

subsection \<open>create_environment_revision and deploy_to_environment\<close>

text \<open>
  The two keyword arguments the caller may pass are options: an absent keyword and a
  \<^verbatim>\<open>None\<close> value both leave the field of the new record unset.
\<close>

definition create_environment_revision ::
  "AppEnvironmentDB \<Rightarrow> UserDB \<Rightarrow> oid option \<Rightarrow> oid option \<Rightarrow> store \<Rightarrow> store" where
  "create_environment_revision environment user deployed_app_variant_revision deployment st =
     (let environment_revision =
            \<lparr>er_id = 0, er_environment = env_id environment,
             er_revision = env_revision environment, er_modified_by = u_id user,
             er_deployed_app_variant_revision = deployed_app_variant_revision,
             er_deployment = deployment\<rparr>
      in snd (create_environment_revision_doc environment_revision st))"

text \<open>
  The revision of the variant is fetched before the variant is tested for \<^verbatim>\<open>None\<close>, so a
  missing variant fails on the attribute access. The environment is changed in memory, the
  environment revision is created, and the environment is saved last.
\<close>

definition deploy_to_environment ::
  "collaborators \<Rightarrow> string \<Rightarrow> oid \<Rightarrow> user_org_data \<Rightarrow> store \<Rightarrow> unit result" where
  "deploy_to_environment C environment_name variant_id uod st =
     (case fetch_app_variant_by_id st variant_id of
        None \<Rightarrow>
          (Inl (AttributeError (sq @ ''NoneType'' @ sq @ '' object has no attribute ''
                  @ sq @ ''revision'' @ sq)), st)
      | Some app_variant_db \<Rightarrow>
          (case fetch_app_variant_revision_by_variant st variant_id (av_revision app_variant_db) of
             Inl e \<Rightarrow> (Inl e, st)
           | Inr app_variant_revision_db \<Rightarrow>
               (case find (\<lambda>e. env_app e = av_app app_variant_db \<and> env_name e = environment_name)
                       (environments st) of
                  None \<Rightarrow>
                    (Inl (ValueError (''Environment '' @ environment_name @ '' not found'')), st)
                | Some environment_db \<Rightarrow>
                    (case get_deployment_by_appid st (av_app app_variant_db) of
                       None \<Rightarrow>
                         (Inl (AttributeError (sq @ ''NoneType'' @ sq
                                 @ '' object has no attribute '' @ sq @ ''id'' @ sq)), st)
                     | Some deployment \<Rightarrow>
                         (let environment_db' = environment_db
                                \<lparr>env_revision := env_revision environment_db + 1,
                                 env_deployed_app_variant := Some (av_id app_variant_db),
                                 env_deployed_app_variant_revision :=
                                   Some (avr_id app_variant_revision_db),
                                 env_deployment := Some (d_id deployment)\<rparr>
                          in case get_user C (uid uod) st of
                               (Inl e, st1) \<Rightarrow> (Inl e, st1)
                             | (Inr user, st1) \<Rightarrow>
                                 (let st2 = create_environment_revision environment_db' user
                                              (Some (avr_id app_variant_revision_db))
                                              (Some (d_id deployment)) st1
                                  in (Inr (), save_environment environment_db' st2)))))))"

subsection \<open>update_app_environment_deployed_variant_revision\<close>

text \<open>
  The environment is the one the environment revision links to, as the fetch with
  \<^verbatim>\<open>fetch_links=True\<close> resolved it; \<open>None\<close> is a link whose target is gone, which is still a
  link object and has no \<^verbatim>\<open>save\<close>.
\<close>

definition update_app_environment_deployed_variant_revision ::
  "AppEnvironmentDB option \<Rightarrow> oid \<Rightarrow> store \<Rightarrow> unit result" where
  "update_app_environment_deployed_variant_revision app_environment deployed_variant_revision st =
     (case fetch_app_variant_revision_by_id st deployed_variant_revision of
        None \<Rightarrow>
          (Inl (Exception (''App variant revision '' @ str_oid deployed_variant_revision
                  @ '' not found'')), st)
      | Some app_variant_revision \<Rightarrow>
          (case app_environment of
             None \<Rightarrow>
               (Inl (AttributeError (sq @ ''Link'' @ sq @ '' object has no attribute ''
                       @ sq @ ''save'' @ sq)), st)
           | Some environment \<Rightarrow>
               (Inr (), save_environment
                  (environment\<lparr>env_deployed_app_variant_revision :=
                                 Some (avr_id app_variant_revision)\<rparr>) st)))"

section \<open>app_manager.py\<close>

text \<open>
  Modelled from the spec: \<^verbatim>\<open>app_manager.update_variant_parameters\<close>, which the router calls
  with the identifier of the variant, is not among the sources. The spec's in-place update is
  what \<^verbatim>\<open>db_manager.update_variant_parameters\<close> does, so the missing function fetches the
  variant with that identifier and hands it on, and raises when there is none.
\<close>

definition app_manager_update_variant_parameters ::
  "collaborators \<Rightarrow> oid \<Rightarrow> dict \<Rightarrow> user_org_data \<Rightarrow> store \<Rightarrow> unit result" where
  "app_manager_update_variant_parameters C app_variant_id new_parameters uod st =
     (case fetch_app_variant_by_id st app_variant_id of
        None \<Rightarrow>
          (Inl (ValueError (''Failed to update app variant '' @ str_oid app_variant_id
                  @ '': Not found in DB.'')), st)
      | Some app_variant_db \<Rightarrow> update_variant_parameters C app_variant_db new_parameters uod st)"

section \<open>configs_router.py\<close>

record SaveConfigPayload =
  p_base_id :: oid
  p_config_name :: string
  p_parameters :: dict
  p_overwrite :: bool

record GetConfigResponse =
  r_config_id :: string
  r_config_name :: string
  r_current_version :: string
  r_parameters :: dict

text \<open>
  The handlers of both endpoints: an \<^verbatim>\<open>HTTPException\<close> is raised again as it is, any other
  exception becomes status 500 with its message.
\<close>

fun to_http :: "error \<Rightarrow> error" where
  "to_http (HTTPException c d) = HTTPException c d"
| "to_http e = HTTPException 500 (str_exc e)"

subsection \<open>save_config\<close>

definition variant_to_overwrite :: "store \<Rightarrow> VariantBaseDB \<Rightarrow> string \<Rightarrow> AppVariantDB option" where
  "variant_to_overwrite st base_db name =
     find (\<lambda>variant_db. av_config_name variant_db = name) (list_variants_for_base st base_db)"

definition save_config_body ::
  "collaborators \<Rightarrow> SaveConfigPayload \<Rightarrow> user_org_data \<Rightarrow> store \<Rightarrow> unit result" where
  "save_config_body C payload uod st =
     (case fetch_base_and_check_access C st (p_base_id payload) uod False of
        Inl e \<Rightarrow> (Inl e, st)
      | Inr base_db \<Rightarrow>
          (case variant_to_overwrite st base_db (p_config_name payload) of
             Some v \<Rightarrow>
               if p_overwrite payload \<or> parameters (av_config v) = []
               then app_manager_update_variant_parameters C (av_id v) (p_parameters payload) uod st
               else (Inl (HTTPException 200
                       ''Config name already exists. Please use a different name or set overwrite to True.''),
                     st)
           | None \<Rightarrow>
               (case add_variant_from_base_and_config C base_db (p_config_name payload)
                       (p_parameters payload) uod st of
                  (Inl e, st1) \<Rightarrow> (Inl e, st1)
                | (Inr db_app_variant, st1) \<Rightarrow> (Inr (), st1))))"

definition save_config ::
  "collaborators \<Rightarrow> SaveConfigPayload \<Rightarrow> user_org_data \<Rightarrow> store \<Rightarrow> unit result" where
  "save_config C payload uod st =
     (case save_config_body C payload uod st of
        (Inl e, st1) \<Rightarrow> (Inl (to_http e), st1)
      | (Inr u, st1) \<Rightarrow> (Inr u, st1))"

subsection \<open>get_config\<close>

text \<open>
  A Python string is false when it is empty, so an argument that is \<^verbatim>\<open>None\<close> and one that is
  the empty string take the same branch: \<open>given\<close> keeps the argument when it is true.
\<close>

definition given :: "string option \<Rightarrow> string option" where
  "given s = (case s of None \<Rightarrow> None | Some x \<Rightarrow> if x = [] then None else Some x)"

definition response_of :: "ConfigDB \<Rightarrow> GetConfigResponse" where
  "response_of config =
     \<lparr>r_config_id = ''0'', r_config_name = config_name config, r_current_version = ''0'',
      r_parameters = parameters config\<rparr>"

text \<open>
  The loop over the environments assigns \<^verbatim>\<open>found_variant_revision\<close> only when an environment
  has the name; the variable initialised before the loop is \<^verbatim>\<open>found_variant\<close>. With no
  such environment the test after the loop reads an unbound local. The deployed revision is a
  link; one whose target is gone stays a link object, which is true and has no \<^verbatim>\<open>base\<close>.
  With neither argument given, \<^verbatim>\<open>config\<close> is unbound at the first use.
\<close>

definition get_config_body ::
  "collaborators \<Rightarrow> store \<Rightarrow> oid \<Rightarrow> string option \<Rightarrow> string option \<Rightarrow> user_org_data
     \<Rightarrow> error + GetConfigResponse" where
  "get_config_body C st base_id cfg_name environment_name uod =
     (case fetch_base_and_check_access C st base_id uod False of
        Inl e \<Rightarrow> Inl e
      | Inr base_db \<Rightarrow>
          (case given environment_name of
             Some en \<Rightarrow>
               (case list_environments st (vb_app base_db) of
                  Inl e \<Rightarrow> Inl e
                | Inr app_environments \<Rightarrow>
                    (case find (\<lambda>app_environment. env_name app_environment = en)
                            app_environments of
                       None \<Rightarrow>
                         Inl (UnboundLocalError (''local variable '' @ sq
                                @ ''found_variant_revision'' @ sq
                                @ '' referenced before assignment''))
                     | Some app_environment \<Rightarrow>
                         (case env_deployed_app_variant_revision app_environment of
                            None \<Rightarrow>
                              Inl (HTTPException 400 (''Environment name '' @ en
                                     @ '' not found for base '' @ str_oid base_id))
                          | Some link \<Rightarrow>
                              (case fetch_app_variant_revision_by_id st link of
                                 None \<Rightarrow>
                                   Inl (AttributeError (sq @ ''Link'' @ sq
                                          @ '' object has no attribute '' @ sq @ ''base'' @ sq))
                               | Some found_variant_revision \<Rightarrow>
                                   if avr_base found_variant_revision \<noteq> base_id
                                   then Inl (HTTPException 400 (''Environment '' @ en
                                               @ '' does not deploy base '' @ str_oid base_id))
                                   else Inr (response_of (avr_config found_variant_revision))))))
           | None \<Rightarrow>
               (case given cfg_name of
                  Some cn \<Rightarrow>
                    (case find (\<lambda>variant_db. av_config_name variant_db = cn)
                            (list_variants_for_base st base_db) of
                       None \<Rightarrow>
                         Inl (HTTPException 400 (''Config name '' @ cn
                                @ '' not found for base '' @ str_oid base_id))
                     | Some found_variant \<Rightarrow> Inr (response_of (av_config found_variant)))
                | None \<Rightarrow>
                    Inl (UnboundLocalError (''local variable '' @ sq @ ''config'' @ sq
                           @ '' referenced before assignment'')))))"

definition get_config ::
  "collaborators \<Rightarrow> store \<Rightarrow> oid \<Rightarrow> string option \<Rightarrow> string option \<Rightarrow> user_org_data
     \<Rightarrow> error + GetConfigResponse" where
  "get_config C st base_id cfg_name environment_name uod =
     (case get_config_body C st base_id cfg_name environment_name uod of
        Inl e \<Rightarrow> Inl (to_http e)
      | Inr r \<Rightarrow> Inr r)"

subsection \<open>revert_deployment_revision\<close>

definition revert_deployment_revision :: "store \<Rightarrow> oid \<Rightarrow> string result" where
  "revert_deployment_revision st deployment_revision_id =
     (case fetch_app_environment_revision st deployment_revision_id of
        None \<Rightarrow>
          (Inl (HTTPException 404 (''No environment revision found for deployment revision ''
                  @ str_oid deployment_revision_id)), st)
      | Some environment_revision \<Rightarrow>
          (case er_deployed_app_variant_revision environment_revision of
             None \<Rightarrow>
               (Inl (HTTPException 404 (''No deployed app variant found for deployment revision: ''
                       @ str_oid deployment_revision_id)), st)
           | Some deployed \<Rightarrow>
               (case update_app_environment_deployed_variant_revision
                       (find (\<lambda>e. env_id e = er_environment environment_revision) (environments st))
                       deployed st of
                  (Inl e, st1) \<Rightarrow> (Inl e, st1)
                | (Inr u, st1) \<Rightarrow>
                    (Inr ''Environment was reverted to deployment revision successful'', st1))))"

section \<open>A concrete database\<close>

text \<open>
  The state the spec's scenario reaches after its fourth step: one application with its three
  environments, a base \<open>b\<close> with its first variant \<open>b.default\<close> (revision 0, no parameters) and
  the variant \<open>b.prod\<close> saved twice (revisions 1 and 2), whose revision 2 is deployed to
  \<open>production\<close>.
\<close>

definition sample_collaborators :: collaborators where
  "sample_collaborators = \<lparr>FEATURE_FLAG = ''oss'', check_user_org_access = (\<lambda>uod org owner. True)\<rparr>"

definition sample_user_org_data :: user_org_data where
  "sample_user_org_data = \<lparr>uid = ''0'', organization_ids = [''2'']\<rparr>"

definition sample_user :: UserDB where
  "sample_user = \<lparr>u_id = 1, u_uid = ''0'', u_organizations = [2]\<rparr>"

definition sample_base :: VariantBaseDB where
  "sample_base =
     \<lparr>vb_id = 5, vb_app = 3, vb_organization = 2, vb_user = 1, vb_base_name = ''b'',
      vb_image = 6\<rparr>"

definition default_variant :: AppVariantDB where
  "default_variant =
     \<lparr>av_id = 7, av_app = 3, av_variant_name = ''b.default'', av_revision = 0, av_image = 6,
      av_user = 1, av_modified_by = 1, av_organization = 2, av_parameters = [],
      av_previous_variant_name = None, av_base_name = ''b'', av_base = 5,
      av_config_name = ''default'',
      av_config = \<lparr>config_name = ''default'', parameters = []\<rparr>, av_is_deleted = False\<rparr>"

definition prod_variant :: AppVariantDB where
  "prod_variant =
     \<lparr>av_id = 12, av_app = 3, av_variant_name = ''b.prod'', av_revision = 2, av_image = 6,
      av_user = 1, av_modified_by = 1, av_organization = 2,
      av_parameters = [(''temperature'', JNum (1 / 2))],
      av_previous_variant_name = Some ''b.default'', av_base_name = ''b'', av_base = 5,
      av_config_name = ''prod'',
      av_config = \<lparr>config_name = ''prod'', parameters = [(''temperature'', JNum (9 / 10))]\<rparr>,
      av_is_deleted = False\<rparr>"

definition prod_revision_2 :: AppVariantRevisionsDB where
  "prod_revision_2 =
     \<lparr>avr_id = 14, avr_variant = 12, avr_revision = 2, avr_modified_by = 1, avr_base = 5,
      avr_config = \<lparr>config_name = ''prod'', parameters = [(''temperature'', JNum (9 / 10))]\<rparr>\<rparr>"

definition staging_environment :: AppEnvironmentDB where
  "staging_environment =
     \<lparr>env_id = 10, env_app = 3, env_name = ''staging'', env_user = 1, env_revision = 0,
      env_organization = 2, env_deployed_app_variant = None,
      env_deployed_app_variant_revision = None, env_deployment = None\<rparr>"

definition production_environment :: AppEnvironmentDB where
  "production_environment =
     \<lparr>env_id = 11, env_app = 3, env_name = ''production'', env_user = 1, env_revision = 1,
      env_organization = 2, env_deployed_app_variant = Some 12,
      env_deployed_app_variant_revision = Some 14, env_deployment = Some 4\<rparr>"

definition production_revision_1 :: AppEnvironmentRevisionDB where
  "production_revision_1 =
     \<lparr>er_id = 15, er_environment = 11, er_revision = 1, er_modified_by = 1,
      er_deployed_app_variant_revision = Some 14, er_deployment = Some 4\<rparr>"

definition sample_store :: store where
  "sample_store =
    \<lparr>users = [sample_user],
     organizations = [\<lparr>o_id = 2, o_type = ''default'', o_owner = ''1''\<rparr>],
     apps = [\<lparr>a_id = 3, a_app_name = ''app'', a_organization = 2, a_user = 1\<rparr>],
     deployments = [\<lparr>d_id = 4, d_app = 3\<rparr>],
     bases = [sample_base],
     variants = [default_variant, prod_variant],
     variant_revisions =
       [\<lparr>avr_id = 8, avr_variant = 7, avr_revision = 0, avr_modified_by = 1, avr_base = 5,
         avr_config = \<lparr>config_name = ''default'', parameters = []\<rparr>\<rparr>,
        \<lparr>avr_id = 13, avr_variant = 12, avr_revision = 1, avr_modified_by = 1, avr_base = 5,
         avr_config = \<lparr>config_name = ''prod'', parameters = [(''temperature'', JNum (1 / 2))]\<rparr>\<rparr>,
        prod_revision_2],
     environments =
       [\<lparr>env_id = 9, env_app = 3, env_name = ''development'', env_user = 1, env_revision = 0,
         env_organization = 2, env_deployed_app_variant = None,
         env_deployed_app_variant_revision = None, env_deployment = None\<rparr>,
        staging_environment,
        production_environment],
     environment_revisions = [production_revision_1],
     next_id = 16\<rparr>"

text \<open>Three requests to save a configuration under the base.\<close>

definition overwrite_payload :: SaveConfigPayload where
  "overwrite_payload =
     \<lparr>p_base_id = 5, p_config_name = ''prod'', p_parameters = [(''temperature'', JNum 1)],
      p_overwrite = True\<rparr>"

definition keep_payload :: SaveConfigPayload where
  "keep_payload =
     \<lparr>p_base_id = 5, p_config_name = ''prod'', p_parameters = [(''temperature'', JNum 1)],
      p_overwrite = False\<rparr>"

definition fill_payload :: SaveConfigPayload where
  "fill_payload =
     \<lparr>p_base_id = 5, p_config_name = ''default'', p_parameters = [(''temperature'', JNum 1)],
      p_overwrite = False\<rparr>"

definition fresh_payload :: SaveConfigPayload where
  "fresh_payload =
     \<lparr>p_base_id = 5, p_config_name = ''canary'', p_parameters = [(''temperature'', JNum 1)],
      p_overwrite = False\<rparr>"

text \<open>The same application when its base has lost every variant.\<close>

definition bare_base_store :: store where
  "bare_base_store =
     sample_store\<lparr>variants := [], variant_revisions := [], environment_revisions := [],
       environments := map (\<lambda>e. e\<lparr>env_revision := 0, env_deployed_app_variant := None,
                                  env_deployed_app_variant_revision := None,
                                  env_deployment := None\<rparr>) (environments sample_store)\<rparr>"

definition sample_args :: eval_args where
  "sample_args =
     \<lparr>ea_inputs = [], ea_output = ''Paris'', ea_correct_answer = ''Paris'', ea_app_params = [],
      ea_settings_values = [], ea_lm_providers_keys = []\<rparr>"

definition sample_ext :: "scorer \<Rightarrow> eval_args \<Rightarrow> Result" where
  "sample_ext f a = \<lparr>res_type = ''error'', res_value = JNull, res_error = None\<rparr>"

section \<open>The evaluate dispatcher resolves keys in the module namespace\<close>

lemma scoring_key_cases:
  "map_of scoring_functions key = Some f \<Longrightarrow>
     map_of module_globals key = Some (ScoringFunction f)"
  by (auto simp: scoring_functions_def module_globals_def split: if_splits)

text \<open>
  C9, as the spec states it, fails: the dispatcher has no table of its own, it looks the key up
  in \<^verbatim>\<open>globals()\<close>. The key \<^verbatim>\<open>evaluate\<close> is none of the seven scoring functions, yet it is
  found (it names the dispatcher itself), the call with six arguments raises, and the caller
  gets the \<^verbatim>\<open>RuntimeError\<close> of a failed evaluation instead of the not-found error.
\<close>

theorem evaluate_not_a_table_counterexample:
  "''evaluate'' \<notin> set (map fst scoring_functions)
   \<and> evaluate sample_ext ''evaluate'' sample_args =
       Inl (RuntimeError (''Error occurred while running evaluate evaluation. Exception: ''
              @ ''evaluate() missing 1 required positional argument: '' @ sq
              @ ''lm_providers_keys'' @ sq))"
  by (simp add: scoring_functions_def evaluate_def module_globals_def)

text \<open>
  C9, amended: for every key, \<^verbatim>\<open>evaluate\<close> resolves the key in the module's global
  namespace; each of the seven scoring-function names dispatches to the scoring function of
  that name, and every key that the namespace does not bind fails with the not-found
  \<^verbatim>\<open>ValueError\<close>.
\<close>

theorem evaluate_resolves_in_module_namespace:
  "(\<forall>f. map_of scoring_functions key = Some f \<longrightarrow>
        evaluate ext key a = Inr (run_scorer ext f a))
   \<and> (key \<notin> set (map fst module_globals) \<longrightarrow>
        evaluate ext key a =
          Inl (ValueError (''Evaluation method '' @ sq @ key @ sq @ '' not found.'')))"
proof (intro conjI allI impI)
  fix f assume "map_of scoring_functions key = Some f"
  then have "map_of module_globals key = Some (ScoringFunction f)"
    by (rule scoring_key_cases)
  then show "evaluate ext key a = Inr (run_scorer ext f a)"
    by (simp add: evaluate_def)
next
  assume "key \<notin> set (map fst module_globals)"
  then have "map_of module_globals key = None"
    by (simp add: map_of_eq_None_iff)
  then show "evaluate ext key a =
      Inl (ValueError (''Evaluation method '' @ sq @ key @ sq @ '' not found.''))"
    by (simp add: evaluate_def)
qed

theorem evaluate_resolves_in_module_namespace_witness:
  "map_of scoring_functions ''auto_exact_match'' = Some AutoExactMatch
   \<and> evaluate sample_ext ''auto_exact_match'' sample_args =
       Inr \<lparr>res_type = ''bool'', res_value = JBool True, res_error = None\<rparr>
   \<and> ''exact_match'' \<notin> set (map fst module_globals)
   \<and> evaluate sample_ext ''exact_match'' sample_args =
       Inl (ValueError (''Evaluation method '' @ sq @ ''exact_match'' @ sq @ '' not found.''))"
proof -
  have k: "map_of scoring_functions ''auto_exact_match'' = Some AutoExactMatch"
    by (simp add: scoring_functions_def)
  have n: "''exact_match'' \<notin> set (map fst module_globals)"
    by (simp add: module_globals_def)
  have r: "run_scorer sample_ext AutoExactMatch sample_args =
      \<lparr>res_type = ''bool'', res_value = JBool True, res_error = None\<rparr>"
    by (simp add: run_scorer_def auto_exact_match_def sample_args_def)
  show ?thesis
    using k n r
      evaluate_resolves_in_module_namespace [of "''auto_exact_match''" sample_ext sample_args]
      evaluate_resolves_in_module_namespace [of "''exact_match''" sample_ext sample_args]
    by simp
qed

section \<open>get_config by environment name\<close>

text \<open>
  C8 at an environment name the application does not have: the base exists and is accessible,
  the application has the environments development, staging and production, and the request
  names \<^verbatim>\<open>qa\<close>. The loop assigns nothing, the test after it reads the unbound
  \<^verbatim>\<open>found_variant_revision\<close>, and the handler answers with status 500.
\<close>

theorem get_config_missing_environment_500:
  "get_config sample_collaborators sample_store 5 None (Some ''qa'') sample_user_org_data =
     Inl (HTTPException 500 (''local variable '' @ sq @ ''found_variant_revision'' @ sq
            @ '' referenced before assignment''))"
  by code_simp

text \<open>
  The two neighbouring cases do answer with status 400: an environment of that name that was
  never deployed, and one whose deployed revision belongs to another base.
\<close>

lemma get_config_environment_400:
  assumes "fetch_base_and_check_access C st base_id uod False = Inr base_db"
    and "list_environments st (vb_app base_db) = Inr app_environments"
    and "find (\<lambda>e. env_name e = en) app_environments = Some app_environment"
    and "en \<noteq> []"
  shows "env_deployed_app_variant_revision app_environment = None \<Longrightarrow>
           get_config C st base_id cfg_name (Some en) uod =
             Inl (HTTPException 400 (''Environment name '' @ en @ '' not found for base ''
                    @ str_oid base_id))"
    and "env_deployed_app_variant_revision app_environment = Some link \<Longrightarrow>
         fetch_app_variant_revision_by_id st link = Some found_variant_revision \<Longrightarrow>
         avr_base found_variant_revision \<noteq> base_id \<Longrightarrow>
           get_config C st base_id cfg_name (Some en) uod =
             Inl (HTTPException 400 (''Environment '' @ en @ '' does not deploy base ''
                    @ str_oid base_id))"
  using assms by (simp_all add: get_config_def get_config_body_def given_def)

section \<open>Lookups in a collection\<close>

lemma find_append_left: "find P xs = Some x \<Longrightarrow> find P (xs @ ys) = Some x"
  by (induction xs) (auto split: if_splits)

lemma find_replace:
  "find P xs = Some e \<Longrightarrow> P e' \<Longrightarrow> key e = k \<Longrightarrow>
     find P (map (\<lambda>x. if key x = k then e' else x) xs) = Some e'"
  by (induction xs) (auto split: if_splits)

lemma find_in_set: "find P xs = Some x \<Longrightarrow> x \<in> set xs \<and> P x"
  by (induction xs) (auto split: if_splits)

lemma find_by_key_distinct:
  "distinct (map key xs) \<Longrightarrow> x \<in> set xs \<Longrightarrow> find (\<lambda>y. key y = key x) xs = Some x"
  by (induction xs) (auto simp: image_iff)

lemma variant_to_overwrite_in_store:
  "variant_to_overwrite st base name = Some v \<Longrightarrow>
     v \<in> set (variants st) \<and> av_base v = vb_id base \<and> av_config_name v = name"
  by (auto simp: variant_to_overwrite_def list_variants_for_base_def dest!: find_in_set)

lemma variant_to_overwrite_fetch:
  "variant_to_overwrite st base name = Some v \<Longrightarrow> distinct (map av_id (variants st)) \<Longrightarrow>
     fetch_app_variant_by_id st (av_id v) = Some v"
  unfolding fetch_app_variant_by_id_def
  by (rule find_by_key_distinct) (auto dest: variant_to_overwrite_in_store)

section \<open>What get_user leaves alone\<close>

lemma get_user_frame:
  "get_user C u st = (out, st') \<Longrightarrow>
     apps st' = apps st \<and> deployments st' = deployments st \<and> bases st' = bases st
     \<and> variants st' = variants st \<and> variant_revisions st' = variant_revisions st
     \<and> environments st' = environments st
     \<and> environment_revisions st' = environment_revisions st"
  by (auto simp: get_user_def create_user_def create_organization_def save_user_def Let_def
           split: option.splits if_splits)

section \<open>save_config on a name that exists\<close>

lemma update_variant_parameters_ok:
  "get_user C (uid uod) st = (Inr user, st1) \<Longrightarrow>
   update_variant_parameters C v ps uod st =
     (Inr (),
      st1\<lparr>variants := map (\<lambda>x. if av_id x = av_id v
                 then v\<lparr>av_config := (av_config v)\<lparr>parameters := ps\<rparr>,
                        av_revision := av_revision v + 1, av_modified_by := u_id user\<rparr>
                 else x) (variants st1),
          variant_revisions := variant_revisions st1 @
            [\<lparr>avr_id = next_id st1, avr_variant = av_id v, avr_revision = av_revision v + 1,
              avr_modified_by = u_id user, avr_base = av_base v,
              avr_config = (av_config v)\<lparr>parameters := ps\<rparr>\<rparr>],
          next_id := next_id st1 + 1\<rparr>)"
  by (simp add: update_variant_parameters_def save_variant_def create_variant_revision_def
        Let_def)

text \<open>
  The in-place update, whichever of the two conditions opens it: the state after the call is
  the state \<^verbatim>\<open>get_user\<close> left, with the variant replaced and one revision appended.
\<close>

lemma save_config_in_place:
  assumes b: "fetch_base_and_check_access C st (p_base_id payload) uod False = Inr base"
    and m: "variant_to_overwrite st base (p_config_name payload) = Some v"
    and o: "p_overwrite payload \<or> parameters (av_config v) = []"
    and u: "get_user C (uid uod) st = (Inr user, st1)"
    and d: "distinct (map av_id (variants st))"
  shows "save_config C payload uod st =
     (Inr (),
      st1\<lparr>variants := map (\<lambda>x. if av_id x = av_id v
                 then v\<lparr>av_config := (av_config v)\<lparr>parameters := p_parameters payload\<rparr>,
                        av_revision := av_revision v + 1, av_modified_by := u_id user\<rparr>
                 else x) (variants st),
          variant_revisions := variant_revisions st @
            [\<lparr>avr_id = next_id st1, avr_variant = av_id v, avr_revision = av_revision v + 1,
              avr_modified_by = u_id user, avr_base = av_base v,
              avr_config = (av_config v)\<lparr>parameters := p_parameters payload\<rparr>\<rparr>],
          next_id := next_id st1 + 1\<rparr>)"
proof -
  have f: "fetch_app_variant_by_id st (av_id v) = Some v"
    using m d by (rule variant_to_overwrite_fetch)
  have fr: "variants st1 = variants st" "variant_revisions st1 = variant_revisions st"
    using get_user_frame [OF u] by simp_all
  have "save_config_body C payload uod st =
      update_variant_parameters C v (p_parameters payload) uod st"
    using b m o f by (auto simp: save_config_body_def app_manager_update_variant_parameters_def)
  then show ?thesis
    by (simp add: save_config_def update_variant_parameters_ok [OF u] fr)
qed

lemma sample_base_found:
  "fetch_base_and_check_access sample_collaborators sample_store 5 sample_user_org_data False =
     Inr sample_base"
  by code_simp

lemma sample_user_found:
  "get_user sample_collaborators (uid sample_user_org_data) sample_store =
     (Inr sample_user, sample_store)"
  by code_simp

lemma sample_variant_ids_distinct: "distinct (map av_id (variants sample_store))"
  by code_simp

lemma sample_facts:
  "av_id prod_variant = 12" "av_revision prod_variant = 2" "av_base prod_variant = 5"
  "av_config prod_variant =
     \<lparr>config_name = ''prod'', parameters = [(''temperature'', JNum (9 / 10))]\<rparr>"
  "av_id default_variant = 7" "av_revision default_variant = 0" "av_base default_variant = 5"
  "av_config default_variant = \<lparr>config_name = ''default'', parameters = []\<rparr>"
  "u_id sample_user = 1" "next_id sample_store = 16"
  by (simp_all add: prod_variant_def default_variant_def sample_user_def sample_store_def)

text \<open>
  C4: when a variant of the base has the requested configuration name and the request sets
  \<^verbatim>\<open>overwrite\<close>, \<^verbatim>\<open>save_config\<close> succeeds; afterwards that variant has its revision number
  raised by exactly one, the supplied parameters as its current configuration and the caller
  as \<^verbatim>\<open>modified_by\<close>, and exactly one variant revision has been appended, at the new number
  and with the new configuration. The caller has access to the base and resolves to a user,
  and the identifiers of the stored variants are distinct.
\<close>

theorem save_config_overwrite:
  assumes "fetch_base_and_check_access C st (p_base_id payload) uod False = Inr base"
    and "variant_to_overwrite st base (p_config_name payload) = Some v"
    and "p_overwrite payload"
    and "get_user C (uid uod) st = (Inr user, st1)"
    and "distinct (map av_id (variants st))"
  shows "\<exists>st'. save_config C payload uod st = (Inr (), st')
     \<and> fetch_app_variant_by_id st' (av_id v) =
         Some (v\<lparr>av_config := (av_config v)\<lparr>parameters := p_parameters payload\<rparr>,
                  av_revision := av_revision v + 1, av_modified_by := u_id user\<rparr>)
     \<and> variant_revisions st' = variant_revisions st @
         [\<lparr>avr_id = next_id st1, avr_variant = av_id v, avr_revision = av_revision v + 1,
           avr_modified_by = u_id user, avr_base = av_base v,
           avr_config = (av_config v)\<lparr>parameters := p_parameters payload\<rparr>\<rparr>]
     \<and> length (variants st') = length (variants st)"
proof -
  have f: "find (\<lambda>x. av_id x = av_id v) (variants st) = Some v"
    using variant_to_overwrite_fetch [OF assms(2) assms(5)]
    by (simp add: fetch_app_variant_by_id_def)
  show ?thesis
    using assms(3)
    by (simp add: save_config_in_place [OF assms(1) assms(2) _ assms(4) assms(5)]
          fetch_app_variant_by_id_def find_replace [OF f])
qed

theorem save_config_overwrite_witness:
  "fetch_base_and_check_access sample_collaborators sample_store (p_base_id overwrite_payload)
      sample_user_org_data False = Inr sample_base
   \<and> variant_to_overwrite sample_store sample_base (p_config_name overwrite_payload) =
       Some prod_variant
   \<and> p_overwrite overwrite_payload
   \<and> get_user sample_collaborators (uid sample_user_org_data) sample_store =
       (Inr sample_user, sample_store)
   \<and> distinct (map av_id (variants sample_store))
   \<and> (\<exists>st'. save_config sample_collaborators overwrite_payload sample_user_org_data sample_store =
          (Inr (), st')
        \<and> fetch_app_variant_by_id st' 12 =
            Some (prod_variant\<lparr>av_config :=
                     \<lparr>config_name = ''prod'', parameters = [(''temperature'', JNum 1)]\<rparr>,
                   av_revision := 3, av_modified_by := 1\<rparr>)
        \<and> variant_revisions st' = variant_revisions sample_store @
            [\<lparr>avr_id = 16, avr_variant = 12, avr_revision = 3, avr_modified_by = 1, avr_base = 5,
              avr_config = \<lparr>config_name = ''prod'', parameters = [(''temperature'', JNum 1)]\<rparr>\<rparr>])"
proof -
  have b: "fetch_base_and_check_access sample_collaborators sample_store
      (p_base_id overwrite_payload) sample_user_org_data False = Inr sample_base"
    using sample_base_found by (simp add: overwrite_payload_def)
  have m: "variant_to_overwrite sample_store sample_base (p_config_name overwrite_payload) =
      Some prod_variant"
    by code_simp
  have o: "p_overwrite overwrite_payload"
    by (simp add: overwrite_payload_def)
  have p: "p_parameters overwrite_payload = [(''temperature'', JNum 1)]"
    by (simp add: overwrite_payload_def)
  show ?thesis
    using b m o sample_user_found sample_variant_ids_distinct
      save_config_overwrite [OF b m o sample_user_found sample_variant_ids_distinct]
    by (auto simp: sample_facts p)
qed

text \<open>
  C5: when a variant of the base has the requested configuration name, its current parameters
  are not empty and the request does not set \<^verbatim>\<open>overwrite\<close>, \<^verbatim>\<open>save_config\<close> raises the
  name-conflict exception (status 200 with the message that the name exists) and the database
  is what it was: no variant, no variant revision, no change to the variant.
\<close>

theorem save_config_conflict:
  assumes "fetch_base_and_check_access C st (p_base_id payload) uod False = Inr base"
    and "variant_to_overwrite st base (p_config_name payload) = Some v"
    and "parameters (av_config v) \<noteq> []"
    and "\<not> p_overwrite payload"
  shows "save_config C payload uod st =
     (Inl (HTTPException 200
        ''Config name already exists. Please use a different name or set overwrite to True.''),
      st)"
  using assms by (simp add: save_config_def save_config_body_def)

theorem save_config_conflict_witness:
  "fetch_base_and_check_access sample_collaborators sample_store (p_base_id keep_payload)
      sample_user_org_data False = Inr sample_base
   \<and> variant_to_overwrite sample_store sample_base (p_config_name keep_payload) =
       Some prod_variant
   \<and> parameters (av_config prod_variant) \<noteq> []
   \<and> \<not> p_overwrite keep_payload
   \<and> save_config sample_collaborators keep_payload sample_user_org_data sample_store =
       (Inl (HTTPException 200
          ''Config name already exists. Please use a different name or set overwrite to True.''),
        sample_store)"
proof -
  have b: "fetch_base_and_check_access sample_collaborators sample_store
      (p_base_id keep_payload) sample_user_org_data False = Inr sample_base"
    using sample_base_found by (simp add: keep_payload_def)
  have m: "variant_to_overwrite sample_store sample_base (p_config_name keep_payload) =
      Some prod_variant"
    by code_simp
  have n: "parameters (av_config prod_variant) \<noteq> []"
    by (simp add: sample_facts)
  have o: "\<not> p_overwrite keep_payload"
    by (simp add: keep_payload_def)
  show ?thesis
    using b m n o save_config_conflict [OF b m n o] by simp
qed

text \<open>
  C6: when a variant of the base has the requested configuration name and its current
  parameters are the empty mapping, \<^verbatim>\<open>save_config\<close> without \<^verbatim>\<open>overwrite\<close> does not raise the
  conflict: it performs the in-place update, raising the revision number by one, storing the
  supplied parameters and appending one variant revision at the new number. The caller has
  access to the base and resolves to a user, and the identifiers of the stored variants are
  distinct.
\<close>

theorem save_config_fills_empty:
  assumes "fetch_base_and_check_access C st (p_base_id payload) uod False = Inr base"
    and "variant_to_overwrite st base (p_config_name payload) = Some v"
    and "parameters (av_config v) = []"
    and "\<not> p_overwrite payload"
    and "get_user C (uid uod) st = (Inr user, st1)"
    and "distinct (map av_id (variants st))"
  shows "\<exists>st'. save_config C payload uod st = (Inr (), st')
     \<and> fetch_app_variant_by_id st' (av_id v) =
         Some (v\<lparr>av_config := (av_config v)\<lparr>parameters := p_parameters payload\<rparr>,
                  av_revision := av_revision v + 1, av_modified_by := u_id user\<rparr>)
     \<and> variant_revisions st' = variant_revisions st @
         [\<lparr>avr_id = next_id st1, avr_variant = av_id v, avr_revision = av_revision v + 1,
           avr_modified_by = u_id user, avr_base = av_base v,
           avr_config = (av_config v)\<lparr>parameters := p_parameters payload\<rparr>\<rparr>]"
proof -
  have f: "find (\<lambda>x. av_id x = av_id v) (variants st) = Some v"
    using variant_to_overwrite_fetch [OF assms(2) assms(6)]
    by (simp add: fetch_app_variant_by_id_def)
  show ?thesis
    using assms(3)
    by (simp add: save_config_in_place [OF assms(1) assms(2) _ assms(5) assms(6)]
          fetch_app_variant_by_id_def find_replace [OF f])
qed

theorem save_config_fills_empty_witness:
  "fetch_base_and_check_access sample_collaborators sample_store (p_base_id fill_payload)
      sample_user_org_data False = Inr sample_base
   \<and> variant_to_overwrite sample_store sample_base (p_config_name fill_payload) =
       Some default_variant
   \<and> parameters (av_config default_variant) = []
   \<and> \<not> p_overwrite fill_payload
   \<and> (\<exists>st'. save_config sample_collaborators fill_payload sample_user_org_data sample_store =
          (Inr (), st')
        \<and> fetch_app_variant_by_id st' 7 =
            Some (default_variant\<lparr>av_config :=
                     \<lparr>config_name = ''default'', parameters = [(''temperature'', JNum 1)]\<rparr>,
                   av_revision := 1, av_modified_by := 1\<rparr>)
        \<and> variant_revisions st' = variant_revisions sample_store @
            [\<lparr>avr_id = 16, avr_variant = 7, avr_revision = 1, avr_modified_by = 1, avr_base = 5,
              avr_config =
                \<lparr>config_name = ''default'', parameters = [(''temperature'', JNum 1)]\<rparr>\<rparr>])"
proof -
  have b: "fetch_base_and_check_access sample_collaborators sample_store
      (p_base_id fill_payload) sample_user_org_data False = Inr sample_base"
    using sample_base_found by (simp add: fill_payload_def)
  have m: "variant_to_overwrite sample_store sample_base (p_config_name fill_payload) =
      Some default_variant"
    by code_simp
  have n: "parameters (av_config default_variant) = []"
    by (simp add: sample_facts)
  have o: "\<not> p_overwrite fill_payload"
    by (simp add: fill_payload_def)
  have p: "p_parameters fill_payload = [(''temperature'', JNum 1)]"
    by (simp add: fill_payload_def)
  show ?thesis
    using b m n o
      save_config_fills_empty [OF b m n o sample_user_found sample_variant_ids_distinct]
    by (auto simp: sample_facts p)
qed

section \<open>save_config on a new name\<close>

lemma variant_to_overwrite_none:
  "variant_to_overwrite st base name = None \<Longrightarrow>
     \<not> list_ex (\<lambda>av. av_config_name av = name) (list_variants_for_base st base)"
  by (simp add: variant_to_overwrite_def find_None_iff list_ex_iff)

text \<open>
  C7, as the spec states it, fails: the base of this database has no variant at all, so no
  variant matches the requested name, and \<^verbatim>\<open>add_variant_from_base_and_config\<close> stops at its
  guard for a missing previous variant. The call answers with status 500 and creates
  nothing.
\<close>

theorem save_config_new_name_counterexample:
  "variant_to_overwrite bare_base_store sample_base (p_config_name fresh_payload) = None
   \<and> save_config sample_collaborators fresh_payload sample_user_org_data bare_base_store =
       (Inl (HTTPException 500 ''Previous app variant not found''), bare_base_store)"
  by code_simp

text \<open>
  C7, amended: when no variant of the base has the requested configuration name and the base
  has at least one variant, \<^verbatim>\<open>save_config\<close> creates one new variant, named after the base
  and the configuration with a dot between them, at revision 1 and with the supplied
  parameters, and appends exactly one variant revision, at revision 1 and with the supplied
  parameters; no revision 0 is written. The caller has access to the base and resolves to a
  user.
\<close>

theorem save_config_new_name:
  assumes "fetch_base_and_check_access C st (p_base_id payload) uod False = Inr base"
    and "variant_to_overwrite st base (p_config_name payload) = None"
    and "find_previous_variant_from_base_id st (vb_id base) = Some previous"
    and "get_user C (uid uod) st = (Inr user, st1)"
  shows "\<exists>st'. save_config C payload uod st = (Inr (), st')
     \<and> variants st' = variants st @
         [\<lparr>av_id = next_id st1, av_app = av_app previous,
           av_variant_name = vb_base_name base @ ''.'' @ p_config_name payload,
           av_revision = 1, av_image = vb_image base, av_user = u_id user,
           av_modified_by = u_id user, av_organization = av_organization previous,
           av_parameters = p_parameters payload,
           av_previous_variant_name = Some (av_variant_name previous),
           av_base_name = vb_base_name base, av_base = vb_id base,
           av_config_name = p_config_name payload,
           av_config = \<lparr>config_name = p_config_name payload,
                         parameters = p_parameters payload\<rparr>,
           av_is_deleted = False\<rparr>]
     \<and> variant_revisions st' = variant_revisions st @
         [\<lparr>avr_id = next_id st1 + 1, avr_variant = next_id st1, avr_revision = 1,
           avr_modified_by = u_id user, avr_base = vb_id base,
           avr_config = \<lparr>config_name = p_config_name payload,
                          parameters = p_parameters payload\<rparr>\<rparr>]"
proof -
  have fr: "variants st1 = variants st" "variant_revisions st1 = variant_revisions st"
    using get_user_frame [OF assms(4)] by simp_all
  have n: "\<not> list_ex (\<lambda>av. av_config_name av = p_config_name payload)
      (list_variants_for_base st base)"
    using assms(2) by (rule variant_to_overwrite_none)
  show ?thesis
    using assms n
    by (simp add: save_config_def save_config_body_def add_variant_from_base_and_config_def
          create_variant_def create_variant_revision_def Let_def fr)
qed

theorem save_config_new_name_witness:
  "fetch_base_and_check_access sample_collaborators sample_store (p_base_id fresh_payload)
      sample_user_org_data False = Inr sample_base
   \<and> variant_to_overwrite sample_store sample_base (p_config_name fresh_payload) = None
   \<and> find_previous_variant_from_base_id sample_store (vb_id sample_base) = Some default_variant
   \<and> (\<exists>st'. save_config sample_collaborators fresh_payload sample_user_org_data sample_store =
          (Inr (), st')
        \<and> map av_variant_name (variants st') = [''b.default'', ''b.prod'', ''b.canary'']
        \<and> map av_revision (variants st') = [0, 2, 1]
        \<and> variant_revisions st' = variant_revisions sample_store @
            [\<lparr>avr_id = 17, avr_variant = 16, avr_revision = 1, avr_modified_by = 1, avr_base = 5,
              avr_config =
                \<lparr>config_name = ''canary'', parameters = [(''temperature'', JNum 1)]\<rparr>\<rparr>])"
proof -
  have b: "fetch_base_and_check_access sample_collaborators sample_store
      (p_base_id fresh_payload) sample_user_org_data False = Inr sample_base"
    using sample_base_found by (simp add: fresh_payload_def)
  have m: "variant_to_overwrite sample_store sample_base (p_config_name fresh_payload) = None"
    by code_simp
  have q: "find_previous_variant_from_base_id sample_store (vb_id sample_base) =
      Some default_variant"
    by code_simp
  have p: "p_parameters fresh_payload = [(''temperature'', JNum 1)]"
    "p_config_name fresh_payload = ''canary''" "vb_id sample_base = 5"
    "vb_base_name sample_base = ''b''"
    "map av_variant_name (variants sample_store) = [''b.default'', ''b.prod'']"
    "map av_revision (variants sample_store) = [0, 2]"
    by (simp_all add: fresh_payload_def sample_base_def sample_store_def default_variant_def
          prod_variant_def)
  show ?thesis
    using b m q save_config_new_name [OF b m q sample_user_found]
    by (auto simp: sample_facts p)
qed

section \<open>deploy_to_environment\<close>

text \<open>
  A deploy that succeeds has found the variant, its current revision, the environment and the
  deployment, and the caller's user; what it leaves is the state after \<^verbatim>\<open>get_user\<close> with one
  environment revision appended and the environment replaced.
\<close>

lemma deploy_to_environment_state:
  assumes "deploy_to_environment C environment_name variant_id uod st = (Inr (), st')"
  obtains v r e d user st1 where
    "fetch_app_variant_by_id st variant_id = Some v"
    "fetch_app_variant_revision_by_variant st variant_id (av_revision v) = Inr r"
    "find (\<lambda>x. env_app x = av_app v \<and> env_name x = environment_name) (environments st) = Some e"
    "get_deployment_by_appid st (av_app v) = Some d"
    "get_user C (uid uod) st = (Inr user, st1)"
    "st' = st1\<lparr>environment_revisions := environment_revisions st @
               [\<lparr>er_id = next_id st1, er_environment = env_id e,
                 er_revision = env_revision e + 1, er_modified_by = u_id user,
                 er_deployed_app_variant_revision = Some (avr_id r),
                 er_deployment = Some (d_id d)\<rparr>],
             next_id := next_id st1 + 1,
             environments :=
               map (\<lambda>x. if env_id x = env_id e
                        then e\<lparr>env_revision := env_revision e + 1,
                               env_deployed_app_variant := Some (av_id v),
                               env_deployed_app_variant_revision := Some (avr_id r),
                               env_deployment := Some (d_id d)\<rparr>
                        else x) (environments st)\<rparr>"
proof -
  obtain v where v: "fetch_app_variant_by_id st variant_id = Some v"
    using assms by (auto simp: deploy_to_environment_def split: option.splits)
  obtain r where r: "fetch_app_variant_revision_by_variant st variant_id (av_revision v) = Inr r"
    using assms v by (auto simp: deploy_to_environment_def split: sum.splits)
  obtain e where e: "find (\<lambda>x. env_app x = av_app v \<and> env_name x = environment_name)
      (environments st) = Some e"
    using assms v r by (auto simp: deploy_to_environment_def split: option.splits)
  obtain d where d: "get_deployment_by_appid st (av_app v) = Some d"
    using assms v r e by (auto simp: deploy_to_environment_def split: option.splits)
  obtain user st1 where u: "get_user C (uid uod) st = (Inr user, st1)"
    using assms v r e d
    by (auto simp: deploy_to_environment_def Let_def split: prod.splits sum.splits)
  have fr: "environments st1 = environments st"
    "environment_revisions st1 = environment_revisions st"
    using get_user_frame [OF u] by simp_all
  have "st' = st1\<lparr>environment_revisions := environment_revisions st @
               [\<lparr>er_id = next_id st1, er_environment = env_id e,
                 er_revision = env_revision e + 1, er_modified_by = u_id user,
                 er_deployed_app_variant_revision = Some (avr_id r),
                 er_deployment = Some (d_id d)\<rparr>],
             next_id := next_id st1 + 1,
             environments :=
               map (\<lambda>x. if env_id x = env_id e
                        then e\<lparr>env_revision := env_revision e + 1,
                               env_deployed_app_variant := Some (av_id v),
                               env_deployed_app_variant_revision := Some (avr_id r),
                               env_deployment := Some (d_id d)\<rparr>
                        else x) (environments st)\<rparr>"
    using assms v r e d u
    by (auto simp: deploy_to_environment_def Let_def create_environment_revision_def
          create_environment_revision_doc_def save_environment_def fr)
  with v r e d u show ?thesis by (rule that)
qed

text \<open>
  C2: after a successful deploy the environment found for the variant's application and the
  given name has its revision counter raised by exactly one and points to the variant's
  current revision, and exactly one environment revision has been appended, numbered with the
  new counter value, belonging to that environment and holding the same variant revision as
  the environment's new pointer.
\<close>

theorem deploy_to_environment_effect:
  assumes "deploy_to_environment C environment_name variant_id uod st = (Inr (), st')"
  shows "\<exists>v r e e' er.
       fetch_app_variant_by_id st variant_id = Some v
     \<and> fetch_app_variant_revision_by_variant st variant_id (av_revision v) = Inr r
     \<and> find (\<lambda>x. env_app x = av_app v \<and> env_name x = environment_name) (environments st) = Some e
     \<and> find (\<lambda>x. env_app x = av_app v \<and> env_name x = environment_name) (environments st') =
         Some e'
     \<and> env_id e' = env_id e
     \<and> env_revision e' = env_revision e + 1
     \<and> env_deployed_app_variant_revision e' = Some (avr_id r)
     \<and> environment_revisions st' = environment_revisions st @ [er]
     \<and> er_environment er = env_id e
     \<and> er_revision er = env_revision e + 1
     \<and> er_deployed_app_variant_revision er = env_deployed_app_variant_revision e'"
proof -
  from assms obtain v r e d user st1 where
    v: "fetch_app_variant_by_id st variant_id = Some v" and
    r: "fetch_app_variant_revision_by_variant st variant_id (av_revision v) = Inr r" and
    e: "find (\<lambda>x. env_app x = av_app v \<and> env_name x = environment_name) (environments st) =
          Some e" and
    d: "get_deployment_by_appid st (av_app v) = Some d" and
    u: "get_user C (uid uod) st = (Inr user, st1)" and
    st': "st' = st1\<lparr>environment_revisions := environment_revisions st @
               [\<lparr>er_id = next_id st1, er_environment = env_id e,
                 er_revision = env_revision e + 1, er_modified_by = u_id user,
                 er_deployed_app_variant_revision = Some (avr_id r),
                 er_deployment = Some (d_id d)\<rparr>],
             next_id := next_id st1 + 1,
             environments :=
               map (\<lambda>x. if env_id x = env_id e
                        then e\<lparr>env_revision := env_revision e + 1,
                               env_deployed_app_variant := Some (av_id v),
                               env_deployed_app_variant_revision := Some (avr_id r),
                               env_deployment := Some (d_id d)\<rparr>
                        else x) (environments st)\<rparr>"
    by (rule deploy_to_environment_state)
  define e' where "e' = e\<lparr>env_revision := env_revision e + 1,
      env_deployed_app_variant := Some (av_id v),
      env_deployed_app_variant_revision := Some (avr_id r),
      env_deployment := Some (d_id d)\<rparr>"
  have pe: "env_app e = av_app v \<and> env_name e = environment_name"
    using find_in_set [OF e] by simp
  have pe': "env_app e' = av_app v \<and> env_name e' = environment_name"
    using pe by (simp add: e'_def)
  have f': "find (\<lambda>x. env_app x = av_app v \<and> env_name x = environment_name) (environments st') =
      Some e'"
    using find_replace [where key = env_id and k = "env_id e", OF e pe' refl]
    unfolding e'_def by (simp add: st')
  show ?thesis
    using v r e f' by (simp add: st') (simp add: e'_def)
qed

theorem deploy_to_environment_effect_witness:
  "\<exists>st'. deploy_to_environment sample_collaborators ''staging'' 12 sample_user_org_data
            sample_store = (Inr (), st')
     \<and> find (\<lambda>x. env_app x = 3 \<and> env_name x = ''staging'') (environments st') =
         Some (staging_environment\<lparr>env_revision := 1, env_deployed_app_variant := Some 12,
                 env_deployed_app_variant_revision := Some 14, env_deployment := Some 4\<rparr>)
     \<and> environment_revisions st' = environment_revisions sample_store @
         [\<lparr>er_id = 16, er_environment = 10, er_revision = 1, er_modified_by = 1,
           er_deployed_app_variant_revision = Some 14, er_deployment = Some 4\<rparr>]"
proof -
  define st' where "st' = snd (deploy_to_environment sample_collaborators ''staging'' 12
      sample_user_org_data sample_store)"
  have run: "deploy_to_environment sample_collaborators ''staging'' 12 sample_user_org_data
      sample_store = (Inr (), st')"
    unfolding st'_def by code_simp
  have a: "find (\<lambda>x. env_app x = 3 \<and> env_name x = ''staging'') (environments st') =
      Some (staging_environment\<lparr>env_revision := 1, env_deployed_app_variant := Some 12,
              env_deployed_app_variant_revision := Some 14, env_deployment := Some 4\<rparr>)"
    unfolding st'_def by code_simp
  have b: "environment_revisions st' = environment_revisions sample_store @
      [\<lparr>er_id = 16, er_environment = 10, er_revision = 1, er_modified_by = 1,
        er_deployed_app_variant_revision = Some 14, er_deployment = Some 4\<rparr>]"
    unfolding st'_def by code_simp
  show ?thesis
    using run a b deploy_to_environment_effect [OF run] by blast
qed

section \<open>revert_deployment_revision\<close>

text \<open>
  C3: after a successful revert to the environment revision \<open>x\<close>, which holds a deployed
  variant revision, the database differs from the one before only in the environment that
  \<open>x\<close> belongs to, and that environment differs only in its pointer, which is the variant
  revision \<open>x\<close> holds: the revision counter and every other field of the environment are
  what they were, and no environment revision has been appended.
\<close>

theorem revert_deployment_revision_effect:
  assumes "revert_deployment_revision st deployment_revision_id = (Inr msg, st')"
  shows "\<exists>x p e.
       fetch_app_environment_revision st deployment_revision_id = Some x
     \<and> er_deployed_app_variant_revision x = Some p
     \<and> find (\<lambda>y. env_id y = er_environment x) (environments st) = Some e
     \<and> st' = st\<lparr>environments :=
                   map (\<lambda>y. if env_id y = er_environment x
                            then e\<lparr>env_deployed_app_variant_revision := Some p\<rparr> else y)
                     (environments st)\<rparr>
     \<and> find (\<lambda>y. env_id y = er_environment x) (environments st') =
         Some (e\<lparr>env_deployed_app_variant_revision := Some p\<rparr>)
     \<and> environment_revisions st' = environment_revisions st"
proof -
  obtain x where x: "fetch_app_environment_revision st deployment_revision_id = Some x"
    using assms by (auto simp: revert_deployment_revision_def split: option.splits)
  obtain p where p: "er_deployed_app_variant_revision x = Some p"
    using assms x by (auto simp: revert_deployment_revision_def split: option.splits)
  obtain r where r: "fetch_app_variant_revision_by_id st p = Some r"
    using assms x p
    by (auto simp: revert_deployment_revision_def
          update_app_environment_deployed_variant_revision_def split: option.splits)
  obtain e where e: "find (\<lambda>y. env_id y = er_environment x) (environments st) = Some e"
    using assms x p r
    by (auto simp: revert_deployment_revision_def
          update_app_environment_deployed_variant_revision_def split: option.splits)
  have rp: "avr_id r = p"
    using find_in_set [of "\<lambda>r. avr_id r = p" "variant_revisions st" r] r
    by (simp add: fetch_app_variant_revision_by_id_def)
  have ee: "env_id e = er_environment x"
    using find_in_set [OF e] by simp
  have st': "st' = st\<lparr>environments :=
      map (\<lambda>y. if env_id y = er_environment x
               then e\<lparr>env_deployed_app_variant_revision := Some p\<rparr> else y)
        (environments st)\<rparr>"
    using assms x p r e rp ee
    by (auto simp: revert_deployment_revision_def
          update_app_environment_deployed_variant_revision_def save_environment_def)
  have f': "find (\<lambda>y. env_id y = er_environment x) (environments st') =
      Some (e\<lparr>env_deployed_app_variant_revision := Some p\<rparr>)"
    using find_replace [where key = env_id and k = "er_environment x"
        and e' = "e\<lparr>env_deployed_app_variant_revision := Some p\<rparr>", OF e] ee
    by (simp add: st')
  show ?thesis
    using x p e f' st' by simp
qed

theorem revert_deployment_revision_effect_witness:
  "\<exists>st'. revert_deployment_revision
            (sample_store\<lparr>environments :=
               map (\<lambda>y. y\<lparr>env_deployed_app_variant_revision := Some 13\<rparr>)
                 (environments sample_store)\<rparr>) 15 =
            (Inr ''Environment was reverted to deployment revision successful'', st')
     \<and> environments st' =
         map (\<lambda>y. if env_id y = 11 then production_environment
                  else y\<lparr>env_deployed_app_variant_revision := Some 13\<rparr>)
           (environments sample_store)
     \<and> environment_revisions st' = [production_revision_1]"
proof -
  define st0 where "st0 = sample_store\<lparr>environments :=
      map (\<lambda>y. y\<lparr>env_deployed_app_variant_revision := Some 13\<rparr>) (environments sample_store)\<rparr>"
  define st' where "st' = snd (revert_deployment_revision st0 15)"
  have run: "revert_deployment_revision st0 15 =
      (Inr ''Environment was reverted to deployment revision successful'', st')"
    unfolding st'_def st0_def by code_simp
  have a: "environments st' =
      map (\<lambda>y. if env_id y = 11 then production_environment
               else y\<lparr>env_deployed_app_variant_revision := Some 13\<rparr>)
        (environments sample_store)"
    unfolding st'_def st0_def by code_simp
  have b: "environment_revisions st0 = [production_revision_1]"
    unfolding st0_def by (simp add: sample_store_def)
  show ?thesis
    using run a b revert_deployment_revision_effect [OF run] unfolding st0_def by auto
qed

section \<open>get_config: the environment name comes first\<close>

text \<open>
  C10, as the spec states it, fails: a request can carry both arguments with an empty
  \<^verbatim>\<open>environment_name\<close>. The empty string is false, the test \<^verbatim>\<open>if environment_name:\<close> does
  not take the environment branch, and the answer comes from the lookup of the variant by
  \<^verbatim>\<open>config_name\<close>: here the current configuration of \<open>b.default\<close>, whereas the same request
  without a configuration name has nothing to answer with.
\<close>

theorem get_config_empty_environment_name_counterexample:
  "get_config sample_collaborators sample_store 5 (Some ''default'') (Some '''')
      sample_user_org_data =
     Inr \<lparr>r_config_id = ''0'', r_config_name = ''default'', r_current_version = ''0'',
          r_parameters = []\<rparr>
   \<and> get_config sample_collaborators sample_store 5 None (Some '''') sample_user_org_data =
     Inl (HTTPException 500 (''local variable '' @ sq @ ''config'' @ sq
            @ '' referenced before assignment''))"
  by code_simp

text \<open>
  C10, amended: when the request supplies a configuration name and a non-empty
  \<^verbatim>\<open>environment_name\<close>, the environment comes first and the configuration name plays no
  part: the answer is the same for every \<^verbatim>\<open>config_name\<close>, given or not, no variant is looked
  up by name, and a successful answer carries the name and the parameters of the configuration
  stored in the variant revision that the named environment points to.
\<close>

theorem get_config_environment_first:
  assumes "environment_name = Some en" and "en \<noteq> []"
  shows "get_config C st base_id cfg_name environment_name uod =
           get_config C st base_id None environment_name uod
     \<and> (\<forall>resp. get_config C st base_id cfg_name environment_name uod = Inr resp \<longrightarrow>
          (\<exists>base_db app_environments app_environment link found_variant_revision.
              fetch_base_and_check_access C st base_id uod False = Inr base_db
            \<and> list_environments st (vb_app base_db) = Inr app_environments
            \<and> find (\<lambda>e. env_name e = en) app_environments = Some app_environment
            \<and> env_deployed_app_variant_revision app_environment = Some link
            \<and> fetch_app_variant_revision_by_id st link = Some found_variant_revision
            \<and> resp = \<lparr>r_config_id = ''0'',
                      r_config_name = config_name (avr_config found_variant_revision),
                      r_current_version = ''0'',
                      r_parameters = parameters (avr_config found_variant_revision)\<rparr>))"
proof -
  have g: "given environment_name = Some en"
    using assms by (simp add: given_def)
  have same: "get_config_body C st base_id cfg_name environment_name uod =
      get_config_body C st base_id None environment_name uod"
    by (simp add: get_config_body_def g split: sum.splits)
  have pinned: "\<exists>base_db app_environments app_environment link found_variant_revision.
        fetch_base_and_check_access C st base_id uod False = Inr base_db
      \<and> list_environments st (vb_app base_db) = Inr app_environments
      \<and> find (\<lambda>e. env_name e = en) app_environments = Some app_environment
      \<and> env_deployed_app_variant_revision app_environment = Some link
      \<and> fetch_app_variant_revision_by_id st link = Some found_variant_revision
      \<and> resp = \<lparr>r_config_id = ''0'',
                r_config_name = config_name (avr_config found_variant_revision),
                r_current_version = ''0'',
                r_parameters = parameters (avr_config found_variant_revision)\<rparr>"
    if "get_config_body C st base_id cfg_name environment_name uod = Inr resp" for resp
    using that
    by (auto simp: get_config_body_def response_of_def g
          split: sum.splits option.splits if_splits)
  have body: "get_config_body C st base_id cfg_name environment_name uod = Inr resp"
    if "get_config C st base_id cfg_name environment_name uod = Inr resp" for resp
    using that by (simp add: get_config_def split: sum.splits)
  show ?thesis
    using same pinned body by (simp add: get_config_def)
qed

theorem get_config_environment_first_witness:
  "Some ''production'' = Some ''production'' \<and> ''production'' \<noteq> []
   \<and> get_config sample_collaborators sample_store 5 (Some ''default'') (Some ''production'')
        sample_user_org_data =
      get_config sample_collaborators sample_store 5 None (Some ''production'')
        sample_user_org_data
   \<and> get_config sample_collaborators sample_store 5 (Some ''default'') (Some ''production'')
        sample_user_org_data =
      Inr \<lparr>r_config_id = ''0'', r_config_name = ''prod'', r_current_version = ''0'',
           r_parameters = [(''temperature'', JNum (9 / 10))]\<rparr>
   \<and> fetch_app_variant_revision_by_id sample_store 14 = Some prod_revision_2
   \<and> config_name (avr_config prod_revision_2) = ''prod''
   \<and> parameters (avr_config prod_revision_2) = [(''temperature'', JNum (9 / 10))]"
proof -
  have a: "Some ''production'' = Some ''production''" by simp
  have b: "''production'' \<noteq> []" by simp
  have c: "get_config sample_collaborators sample_store 5 (Some ''default'') (Some ''production'')
        sample_user_org_data =
      Inr \<lparr>r_config_id = ''0'', r_config_name = ''prod'', r_current_version = ''0'',
           r_parameters = [(''temperature'', JNum (9 / 10))]\<rparr>"
    by code_simp
  have d: "fetch_app_variant_revision_by_id sample_store 14 = Some prod_revision_2"
    by code_simp
  have e: "config_name (avr_config prod_revision_2) = ''prod''"
    "parameters (avr_config prod_revision_2) = [(''temperature'', JNum (9 / 10))]"
    by (simp_all add: prod_revision_2_def)
  show ?thesis
    using c d e get_config_environment_first [OF a b, of sample_collaborators sample_store 5
        "Some ''default''" sample_user_org_data]
    by simp
qed

section \<open>A deployed snapshot stays what it was\<close>

lemma find_filter: "find P (filter Q xs) = find (\<lambda>x. Q x \<and> P x) xs"
  by (induction xs) auto

lemma update_variant_parameters_frame:
  assumes "update_variant_parameters C v ps uod st = (out, st')"
  shows "bases st' = bases st \<and> apps st' = apps st \<and> environments st' = environments st
     \<and> (\<exists>ys. variant_revisions st' = variant_revisions st @ ys)"
proof (cases "get_user C (uid uod) st")
  case (Pair res st1)
  note fr = get_user_frame [OF Pair]
  show ?thesis
  proof (cases res)
    case (Inl e)
    with Pair assms fr show ?thesis
      by (auto simp: update_variant_parameters_def)
  next
    case (Inr user)
    with Pair assms fr show ?thesis
      by (auto simp: update_variant_parameters_def save_variant_def create_variant_revision_def
            Let_def)
  qed
qed

lemma revision_by_variant_in_store:
  "fetch_app_variant_revision_by_variant st i n = Inr r \<Longrightarrow> r \<in> set (variant_revisions st)"
  by (auto simp: fetch_app_variant_revision_by_variant_def split: option.splits
        dest: find_in_set)

text \<open>
  C1: let a deploy of a variant to the environment \<open>en\<close> succeed, and let \<open>r\<close> be the
  variant's current revision at that moment. Whatever parameters are then saved to whichever
  variant with \<^verbatim>\<open>update_variant_parameters\<close>, the stored revision \<open>r\<close> is still found
  unchanged under its identifier, as is every other stored revision, and
  \<^verbatim>\<open>get_config\<close> by that environment name answers with the configuration that \<open>r\<close> held when
  it was deployed. The requested base is the base of \<open>r\<close> and belongs to the variant's
  application, the caller has access to it, and the identifiers of the stored variant
  revisions are distinct.
\<close>

theorem deployed_snapshot_is_pinned:
  assumes dep: "deploy_to_environment C en variant_id uod st = (Inr (), st1)"
    and v: "fetch_app_variant_by_id st variant_id = Some v"
    and r: "fetch_app_variant_revision_by_variant st variant_id (av_revision v) = Inr r"
    and ids: "distinct (map avr_id (variant_revisions st))"
    and b: "fetch_base_and_check_access C st base_id uod2 False = Inr base"
    and app: "vb_app base = av_app v"
    and a: "fetch_app_by_id st (vb_app base) = Some app_instance"
    and rb: "avr_base r = base_id"
    and en: "en \<noteq> []"
    and upd: "update_variant_parameters C v1 new_parameters uod1 st1 = (out, st2)"
  shows "get_config C st2 base_id cfg_name (Some en) uod2 = Inr (response_of (avr_config r))
     \<and> fetch_app_variant_revision_by_id st2 (avr_id r) = Some r
     \<and> (\<forall>i x. fetch_app_variant_revision_by_id st1 i = Some x \<longrightarrow>
            fetch_app_variant_revision_by_id st2 i = Some x)"
proof -
  from dep obtain v' r' e d user stu where
    v': "fetch_app_variant_by_id st variant_id = Some v'" and
    r': "fetch_app_variant_revision_by_variant st variant_id (av_revision v') = Inr r'" and
    e: "find (\<lambda>x. env_app x = av_app v' \<and> env_name x = en) (environments st) = Some e" and
    d: "get_deployment_by_appid st (av_app v') = Some d" and
    u: "get_user C (uid uod) st = (Inr user, stu)" and
    st1: "st1 = stu\<lparr>environment_revisions := environment_revisions st @
               [\<lparr>er_id = next_id stu, er_environment = env_id e,
                 er_revision = env_revision e + 1, er_modified_by = u_id user,
                 er_deployed_app_variant_revision = Some (avr_id r'),
                 er_deployment = Some (d_id d)\<rparr>],
             next_id := next_id stu + 1,
             environments :=
               map (\<lambda>x. if env_id x = env_id e
                        then e\<lparr>env_revision := env_revision e + 1,
                               env_deployed_app_variant := Some (av_id v'),
                               env_deployed_app_variant_revision := Some (avr_id r'),
                               env_deployment := Some (d_id d)\<rparr>
                        else x) (environments st)\<rparr>"
    by (rule deploy_to_environment_state)
  have vv: "v' = v" using v v' by simp
  have rr: "r' = r" using r r' vv by simp
  define e' where "e' = e\<lparr>env_revision := env_revision e + 1,
      env_deployed_app_variant := Some (av_id v),
      env_deployed_app_variant_revision := Some (avr_id r),
      env_deployment := Some (d_id d)\<rparr>"
  note fu = get_user_frame [OF u]
  note f2 = update_variant_parameters_frame [OF upd]
  have bases2: "bases st2 = bases st" and apps2: "apps st2 = apps st"
    using fu f2 by (simp_all add: st1)
  have envs2: "environments st2 =
      map (\<lambda>x. if env_id x = env_id e then e' else x) (environments st)"
    using f2 unfolding e'_def by (simp add: st1 vv rr)
  have revs1: "variant_revisions st1 = variant_revisions st"
    using fu by (simp add: st1)
  obtain ys where revs2: "variant_revisions st2 = variant_revisions st1 @ ys"
    using f2 by blast
  have keep: "fetch_app_variant_revision_by_id st2 i = Some x"
    if "fetch_app_variant_revision_by_id st1 i = Some x" for i x
    using that by (simp add: fetch_app_variant_revision_by_id_def revs2 find_append_left)
  have r_in: "r \<in> set (variant_revisions st)"
    using r by (rule revision_by_variant_in_store)
  have r1: "fetch_app_variant_revision_by_id st1 (avr_id r) = Some r"
    unfolding fetch_app_variant_revision_by_id_def revs1
    using ids r_in by (rule find_by_key_distinct)
  have r2: "fetch_app_variant_revision_by_id st2 (avr_id r) = Some r"
    using r1 by (rule keep)
  have pe: "env_app e = av_app v \<and> env_name e = en"
    using find_in_set [OF e] vv by simp
  have pe': "env_app e' = av_app v \<and> env_name e' = en"
    using pe by (simp add: e'_def)
  have env2: "find (\<lambda>x. env_app x = av_app v \<and> env_name x = en) (environments st2) = Some e'"
    using find_replace [where key = env_id and k = "env_id e", OF e [unfolded vv] pe' refl]
    by (simp add: envs2)
  have base2: "fetch_base_and_check_access C st2 base_id uod2 False = Inr base"
    using b by (simp add: fetch_base_and_check_access_def bases2)
  have list2: "list_environments st2 (vb_app base) =
      Inr (filter (\<lambda>x. env_app x = av_app v) (environments st2))"
    using a by (simp add: list_environments_def fetch_app_by_id_def apps2 app)
  have found: "find (\<lambda>x. env_name x = en) (filter (\<lambda>x. env_app x = av_app v) (environments st2)) =
      Some e'"
    using env2 by (simp add: find_filter)
  have ptr: "env_deployed_app_variant_revision e' = Some (avr_id r)"
    by (simp add: e'_def)
  have "get_config_body C st2 base_id cfg_name (Some en) uod2 =
      Inr (response_of (avr_config r))"
    using en rb by (simp add: get_config_body_def given_def base2 list2 found ptr r2)
  then have "get_config C st2 base_id cfg_name (Some en) uod2 =
      Inr (response_of (avr_config r))"
    by (simp add: get_config_def)
  then show ?thesis
    using r2 keep by blast
qed

theorem deployed_snapshot_is_pinned_witness:
  "\<exists>st1 st2.
       deploy_to_environment sample_collaborators ''staging'' 12 sample_user_org_data
         sample_store = (Inr (), st1)
     \<and> fetch_app_variant_revision_by_variant sample_store 12 (av_revision prod_variant) =
         Inr prod_revision_2
     \<and> update_variant_parameters sample_collaborators prod_variant [(''temperature'', JNum 1)]
         sample_user_org_data st1 = (Inr (), st2)
     \<and> map_option av_config (fetch_app_variant_by_id st2 12) =
         Some \<lparr>config_name = ''prod'', parameters = [(''temperature'', JNum 1)]\<rparr>
     \<and> map_option av_revision (fetch_app_variant_by_id st2 12) = Some 3
     \<and> get_config sample_collaborators st2 5 None (Some ''staging'') sample_user_org_data =
         Inr \<lparr>r_config_id = ''0'', r_config_name = ''prod'', r_current_version = ''0'',
              r_parameters = [(''temperature'', JNum (9 / 10))]\<rparr>
     \<and> fetch_app_variant_revision_by_id st2 14 = Some prod_revision_2"
proof -
  define st1 where "st1 = snd (deploy_to_environment sample_collaborators ''staging'' 12
      sample_user_org_data sample_store)"
  define st2 where "st2 = snd (update_variant_parameters sample_collaborators prod_variant
      [(''temperature'', JNum 1)] sample_user_org_data st1)"
  have dep: "deploy_to_environment sample_collaborators ''staging'' 12 sample_user_org_data
      sample_store = (Inr (), st1)"
    unfolding st1_def by code_simp
  have v: "fetch_app_variant_by_id sample_store 12 = Some prod_variant"
    by code_simp
  have r: "fetch_app_variant_revision_by_variant sample_store 12 (av_revision prod_variant) =
      Inr prod_revision_2"
    by code_simp
  have ids: "distinct (map avr_id (variant_revisions sample_store))"
    by code_simp
  have app: "vb_app sample_base = av_app prod_variant"
    by (simp add: sample_base_def prod_variant_def)
  have a: "fetch_app_by_id sample_store (vb_app sample_base) =
      Some \<lparr>a_id = 3, a_app_name = ''app'', a_organization = 2, a_user = 1\<rparr>"
    by code_simp
  have rb: "avr_base prod_revision_2 = 5"
    by (simp add: prod_revision_2_def)
  have en: "''staging'' \<noteq> []"
    by simp
  have upd: "update_variant_parameters sample_collaborators prod_variant
      [(''temperature'', JNum 1)] sample_user_org_data st1 = (Inr (), st2)"
    unfolding st2_def st1_def by code_simp
  have edited: "map_option av_config (fetch_app_variant_by_id st2 12) =
      Some \<lparr>config_name = ''prod'', parameters = [(''temperature'', JNum 1)]\<rparr>"
    "map_option av_revision (fetch_app_variant_by_id st2 12) = Some 3"
    unfolding st2_def st1_def by code_simp+
  have c: "response_of (avr_config prod_revision_2) =
      \<lparr>r_config_id = ''0'', r_config_name = ''prod'', r_current_version = ''0'',
       r_parameters = [(''temperature'', JNum (9 / 10))]\<rparr>"
    "avr_id prod_revision_2 = 14"
    by (simp_all add: response_of_def prod_revision_2_def)
  show ?thesis
    using dep r upd edited
      deployed_snapshot_is_pinned [OF dep v r ids sample_base_found app a rb en upd, of None]
    by (auto simp: c)
qed

end
